theory Spec2Isabelle
  imports Main
begin

section \<open>The task service of index.js\<close>

text \<open>
  index.js is an Express application: route handlers over one MySQL connection pool,
  with bcryptjs for password digests and jsonwebtoken for the login token. It installs
  three middlewares, \<open>cors()\<close>, \<open>express.json()\<close> and the Swagger pages, and none
  that reads a token. The handlers of registration, login, task creation (both routes),
  the owner-scoped update and delete, the completion patch and the week listing are
  embedded here, each as a function from the request and the pool to the response it
  sends and the pool it leaves. Messages are written without their accents. app.js holds
  two earlier versions of the service; in the later of them these handlers read as in
  index.js.
\<close>

subsection \<open>JavaScript values of a parsed JSON body\<close>

text \<open>
  \<open>express.json()\<close> leaves the parsed object in \<open>req.body\<close> when the request
  declares a JSON body; the \<open>body\<close> of a request is here what a handler finds in
  \<open>req.body\<close>, the list of the object's properties, each key once. A property the
  object lacks reads as \<open>undefined\<close>, which is \<open>None\<close> here. Numbers are the integers among the doubles: the handlers only test
  a number for being zero.
\<close>

datatype json =
    JNull
  | JBool bool
  | JNum int
  | JStr string
  | JArr "json list"
  | JObj "(string \<times> json) list"

text \<open>\<open>const { k } = req.body\<close>\<close>

definition field :: "(string \<times> json) list \<Rightarrow> string \<Rightarrow> json option" where
  "field b k = map_of b k"

text \<open>
  JavaScript's ToBoolean, as \<open>!x\<close> and \<open>x || y\<close> apply it: undefined, null, false,
  zero and the empty string are falsy, every array and object is truthy.
\<close>

fun truthy :: "json option \<Rightarrow> bool" where
  "truthy None = False"
| "truthy (Some JNull) = False"
| "truthy (Some (JBool b)) = b"
| "truthy (Some (JNum n)) = (n \<noteq> 0)"
| "truthy (Some (JStr s)) = (s \<noteq> [])"
| "truthy (Some (JArr xs)) = True"
| "truthy (Some (JObj kvs)) = True"

text \<open>
  \<open>a === b\<close> on two values read from one body: primitives are compared by type and
  value; two arrays or objects are distinct references, hence never strictly equal.
\<close>

fun strict_eq :: "json option \<Rightarrow> json option \<Rightarrow> bool" where
  "strict_eq None None = True"
| "strict_eq (Some JNull) (Some JNull) = True"
| "strict_eq (Some (JBool a)) (Some (JBool b)) = (a = b)"
| "strict_eq (Some (JNum a)) (Some (JNum b)) = (a = b)"
| "strict_eq (Some (JStr a)) (Some (JStr b)) = (a = b)"
| "strict_eq a b = False"

subsection \<open>Requests and responses\<close>

text \<open>
  A value of the parsed query string: a string, or an array when the parameter is given
  several times, or an object when it is given with keys in brackets.
\<close>

datatype qvalue =
    QStr string
  | QArr "qvalue list"
  | QObj "(string \<times> qvalue) list"

text \<open>
  The route parameters (\<open>:id\<close>, \<open>:usuarioId\<close>, \<open>:taskId\<close>) are passed to each
  handler as numbers, the row identifiers they name. A request keeps its headers, although
  no handler reads them.
\<close>

record request =
  headers :: "(string \<times> string) list"
  query :: "(string \<times> qvalue) list"
  body :: "(string \<times> json) list"

subsection \<open>The tables\<close>

text \<open>
  Modelled from the spec: the schema of the tables \<open>usuario\<close> and \<open>tasks\<close> is not in
  the source, which only names their columns in its statements. A user has an identifier
  generated on insert, a name, an email and a password digest; a task an identifier, text,
  due date, priority, folder, completion flag and a nullable owner reference. A column
  keeps the value bound to the statement's parameter; a statement the engine refuses for
  any reason is a rejected statement (see \<open>statement\<close>).
\<close>

record usuario_row =
  u_id :: nat
  u_nome :: json
  u_email :: json
  u_senha :: string

record task =
  t_id :: nat
  t_text :: json
  t_date :: json
  t_priority :: json
  t_folder :: json
  t_concluded :: json
  t_usuario_id :: "nat option"

datatype payload =
    Object "(string \<times> json) list"
  | Rows "task list"

record response =
  status :: nat
  payload :: payload

text \<open>\<open>res.status(n).json({ k: 'm' })\<close>\<close>

definition reply :: "nat \<Rightarrow> string \<Rightarrow> string \<Rightarrow> response" where
  "reply n k m = \<lparr>status = n, payload = Object [(k, JStr m)]\<rparr>"

subsection \<open>The connection pool\<close>

text \<open>
  The SQL statements of the handlers embedded below, each with the values bound to its
  placeholders.
\<close>

datatype stmt =
    SelectUsuarioByEmail json
  | InsertUsuario json json string
  | InsertTaskOwned json json json json json nat
  | SelectTaskByIdOwner nat nat
  | UpdateTask json json json json json nat
  | DeleteTask nat
  | InsertTask json json json json json
  | UpdateConcluded json nat
  | SelectTasksBetween string string

text \<open>
  What a handler's \<open>try\<close> block can throw: a statement the pool rejects, bcryptjs
  called on a value that is not a string, and \<open>toISOString\<close> called on an invalid date.
\<close>

datatype error = QueryError | IllegalArguments | RangeError

text \<open>
  The pool is the two tables, their AUTO_INCREMENT counters, the statements issued so
  far in order, and a schedule of rejections: the n-th statement issued from now on is
  rejected (the promise of \<open>pool.query\<close> or \<open>pool.execute\<close> rejects and the table is
  untouched) when the n-th flag is set; past the schedule's end none is.
\<close>

record pool =
  usuario_tbl :: "usuario_row list"
  tasks_tbl :: "task list"
  usuario_auto :: nat
  tasks_auto :: nat
  issued :: "stmt list"
  rejects :: "bool list"

definition rejected :: "pool \<Rightarrow> bool" where
  "rejected p = (case rejects p of [] \<Rightarrow> False | r # rs \<Rightarrow> r)"

text \<open>
  Issuing a statement: whether the pool accepts it, and the pool with the statement
  recorded and the schedule advanced. The functions below do the statement's work on the
  tables when it is accepted.
\<close>

definition statement :: "stmt \<Rightarrow> pool \<Rightarrow> bool \<times> pool" where
  "statement q p = (\<not> rejected p, p\<lparr>issued := issued p @ [q], rejects := tl (rejects p)\<rparr>)"

text \<open>
  A value bound to a placeholder. Every handler binds a body value only after having
  tested it, so it is defined then; the driver would send undefined as NULL.
\<close>

definition bound :: "json option \<Rightarrow> json" where
  "bound x = (case x of None \<Rightarrow> JNull | Some v \<Rightarrow> v)"

text \<open>
  \<open>pool.query\<close> writes each bound value into the text of the statement, as sqlstring's
  \<open>escape\<close> does: a string as a quoted literal, an array as the texts of its elements
  separated by commas, an array among them in parentheses. So the array of one string is
  written as that string. \<open>literal v\<close> is the string that the text written for \<open>v\<close>
  denotes when that text is one string literal, in parentheses or not.
\<close>

fun literal :: "json \<Rightarrow> string option" where
  "literal (JStr s) = Some s"
| "literal (JArr [JStr s]) = Some s"
| "literal (JArr [JArr ys]) = literal (JArr ys)"
| "literal v = None"

text \<open>
  What the engine makes of the text written for any other value (a number, a boolean,
  NULL, several values in a row, the assignments an object is written as) is not
  modelled; it is taken as the engine answers: \<open>where_email v us\<close> is the answer to
  \<open>SELECT * FROM usuario WHERE email = ?\<close> with \<open>v\<close> bound, on the rows \<open>us\<close>, and
  \<open>values_other n e h\<close> is the name and the email that the row inserted by
  \<open>INSERT INTO usuario (nome, email, senha) VALUES (?, ?, ?)\<close> keeps, with \<open>n\<close>,
  \<open>e\<close> and \<open>h\<close> bound; \<open>None\<close> is the statement refused.
\<close>

record engine =
  where_email :: "json \<Rightarrow> usuario_row list \<Rightarrow> usuario_row list option"
  values_other :: "json \<Rightarrow> json \<Rightarrow> string \<Rightarrow> (json \<times> json) option"

text \<open>
  \<open>SELECT * FROM usuario WHERE email = ?\<close>: for a string literal, the rows with exactly
  that email.
\<close>

definition select_usuario_by_email ::
  "engine \<Rightarrow> json \<Rightarrow> pool \<Rightarrow> (error + usuario_row list) \<times> pool" where
  "select_usuario_by_email eng e p =
     (let (ok, p') = statement (SelectUsuarioByEmail e) p
      in if \<not> ok then (Inl QueryError, p')
         else (case literal e of
                 Some s \<Rightarrow> (Inr [u \<leftarrow> usuario_tbl p'. u_email u = JStr s], p')
               | None \<Rightarrow>
                   (case where_email eng e (usuario_tbl p') of
                      None \<Rightarrow> (Inl QueryError, p')
                    | Some rows \<Rightarrow> (Inr rows, p'))))"

text \<open>
  The name and the email that the row inserted keeps: a column keeps the string of a
  string literal.
\<close>

definition stored :: "engine \<Rightarrow> json \<Rightarrow> json \<Rightarrow> string \<Rightarrow> (json \<times> json) option" where
  "stored eng n e h =
     (case literal e of
        Some e' \<Rightarrow>
          (case literal n of
             Some n' \<Rightarrow> Some (JStr n', JStr e')
           | None \<Rightarrow>
               (case values_other eng n e h of
                  None \<Rightarrow> None
                | Some kept \<Rightarrow> Some (fst kept, JStr e')))
      | None \<Rightarrow> values_other eng n e h)"

text \<open>\<open>INSERT INTO usuario (nome, email, senha) VALUES (?, ?, ?)\<close>, returning \<open>insertId\<close>\<close>

definition insert_usuario ::
  "engine \<Rightarrow> json \<Rightarrow> json \<Rightarrow> string \<Rightarrow> pool \<Rightarrow> (error + nat) \<times> pool" where
  "insert_usuario eng n e h p =
     (let (ok, p') = statement (InsertUsuario n e h) p
      in if \<not> ok then (Inl QueryError, p')
         else (case stored eng n e h of
                 None \<Rightarrow> (Inl QueryError, p')
               | Some (n', e') \<Rightarrow>
                   (Inr (usuario_auto p'),
                    p'\<lparr>usuario_tbl := usuario_tbl p' @
                         [\<lparr>u_id = usuario_auto p', u_nome = n', u_email = e', u_senha = h\<rparr>],
                       usuario_auto := Suc (usuario_auto p')\<rparr>)))"

text \<open>
  \<open>INSERT INTO tasks (text, date, priority, folder, concluded, usuario_id) VALUES (?, ?, ?, ?, ?, ?)\<close>
\<close>

definition insert_task_owned ::
  "json \<Rightarrow> json \<Rightarrow> json \<Rightarrow> json \<Rightarrow> json \<Rightarrow> nat \<Rightarrow> pool \<Rightarrow> (error + nat) \<times> pool" where
  "insert_task_owned tx d pr f c u p =
     (let (ok, p') = statement (InsertTaskOwned tx d pr f c u) p
      in if \<not> ok then (Inl QueryError, p')
         else (Inr (tasks_auto p'),
           p'\<lparr>tasks_tbl := tasks_tbl p' @
                [\<lparr>t_id = tasks_auto p', t_text = tx, t_date = d, t_priority = pr, t_folder = f,
                  t_concluded = c, t_usuario_id = Some u\<rparr>],
              tasks_auto := Suc (tasks_auto p')\<rparr>))"

text \<open>
  \<open>INSERT INTO tasks (text, date, priority, folder, concluded) VALUES (?, ?, ?, ?, ?)\<close>:
  the owner reference is left NULL.
\<close>

definition insert_task ::
  "json \<Rightarrow> json \<Rightarrow> json \<Rightarrow> json \<Rightarrow> json \<Rightarrow> pool \<Rightarrow> (error + nat) \<times> pool" where
  "insert_task tx d pr f c p =
     (let (ok, p') = statement (InsertTask tx d pr f c) p
      in if \<not> ok then (Inl QueryError, p')
         else (Inr (tasks_auto p'),
           p'\<lparr>tasks_tbl := tasks_tbl p' @
                [\<lparr>t_id = tasks_auto p', t_text = tx, t_date = d, t_priority = pr, t_folder = f,
                  t_concluded = c, t_usuario_id = None\<rparr>],
              tasks_auto := Suc (tasks_auto p')\<rparr>))"

text \<open>
  \<open>SELECT * FROM tasks WHERE id = ? AND usuario_id = ?\<close>: a NULL owner reference equals
  no parameter.
\<close>

definition select_task_by_id_owner :: "nat \<Rightarrow> nat \<Rightarrow> pool \<Rightarrow> (error + task list) \<times> pool" where
  "select_task_by_id_owner i u p =
     (let (ok, p') = statement (SelectTaskByIdOwner i u) p
      in if \<not> ok then (Inl QueryError, p')
         else (Inr [t \<leftarrow> tasks_tbl p'. t_id t = i \<and> t_usuario_id t = Some u], p'))"

text \<open>
  \<open>UPDATE tasks SET text = ?, date = ?, priority = ?, folder = ?, concluded = ? WHERE id = ?\<close>
\<close>

definition update_task ::
  "json \<Rightarrow> json \<Rightarrow> json \<Rightarrow> json \<Rightarrow> json \<Rightarrow> nat \<Rightarrow> pool \<Rightarrow> (error + nat) \<times> pool" where
  "update_task tx d pr f c i p =
     (let (ok, p') = statement (UpdateTask tx d pr f c i) p
      in if \<not> ok then (Inl QueryError, p')
         else (Inr (length [t \<leftarrow> tasks_tbl p'. t_id t = i]),
           p'\<lparr>tasks_tbl := map (\<lambda>t. if t_id t = i
                               then t\<lparr>t_text := tx, t_date := d, t_priority := pr, t_folder := f,
                                      t_concluded := c\<rparr>
                               else t) (tasks_tbl p')\<rparr>))"

text \<open>\<open>DELETE FROM tasks WHERE id = ?\<close>, returning \<open>affectedRows\<close>\<close>

definition delete_task :: "nat \<Rightarrow> pool \<Rightarrow> (error + nat) \<times> pool" where
  "delete_task i p =
     (let (ok, p') = statement (DeleteTask i) p
      in if \<not> ok then (Inl QueryError, p')
         else (Inr (length [t \<leftarrow> tasks_tbl p'. t_id t = i]),
           p'\<lparr>tasks_tbl := [t \<leftarrow> tasks_tbl p'. t_id t \<noteq> i]\<rparr>))"

text \<open>\<open>UPDATE tasks SET concluded = ? WHERE id = ?\<close>, returning \<open>affectedRows\<close>\<close>

definition update_concluded :: "json \<Rightarrow> nat \<Rightarrow> pool \<Rightarrow> (error + nat) \<times> pool" where
  "update_concluded c i p =
     (let (ok, p') = statement (UpdateConcluded c i) p
      in if \<not> ok then (Inl QueryError, p')
         else (Inr (length [t \<leftarrow> tasks_tbl p'. t_id t = i]),
           p'\<lparr>tasks_tbl := map (\<lambda>t. if t_id t = i then t\<lparr>t_concluded := c\<rparr> else t) (tasks_tbl p')\<rparr>))"

subsection \<open>Calendar dates\<close>

text \<open>
  A date of the proleptic Gregorian calendar, the calendar of both JavaScript's
  \<open>Date\<close> and the engine's DATE.
\<close>

record calendar_date =
  year :: int
  month :: nat
  day :: nat

definition leap :: "int \<Rightarrow> bool" where
  "leap y = (y mod 4 = 0 \<and> (y mod 100 \<noteq> 0 \<or> y mod 400 = 0))"

definition days_in_month :: "int \<Rightarrow> nat \<Rightarrow> nat" where
  "days_in_month y m =
     (if m = 2 then (if leap y then 29 else 28)
      else if m = 4 \<or> m = 6 \<or> m = 9 \<or> m = 11 then 30
      else 31)"

definition valid_date :: "calendar_date \<Rightarrow> bool" where
  "valid_date d =
     (1 \<le> month d \<and> month d \<le> 12 \<and> 1 \<le> day d \<and> day d \<le> days_in_month (year d) (month d))"

definition next_day :: "calendar_date \<Rightarrow> calendar_date" where
  "next_day d =
     (if day d < days_in_month (year d) (month d) then d\<lparr>day := day d + 1\<rparr>
      else if month d < 12 then d\<lparr>month := month d + 1, day := 1\<rparr>
      else \<lparr>year = year d + 1, month = 1, day = 1\<rparr>)"

definition prev_day :: "calendar_date \<Rightarrow> calendar_date" where
  "prev_day d =
     (if 1 < day d then d\<lparr>day := day d - 1\<rparr>
      else if 1 < month d
      then d\<lparr>month := month d - 1, day := days_in_month (year d) (month d - 1)\<rparr>
      else \<lparr>year = year d - 1, month = 12, day = 31\<rparr>)"

text \<open>The date \<open>k\<close> days after (before, when \<open>k\<close> is negative) a date.\<close>

definition add_days :: "int \<Rightarrow> calendar_date \<Rightarrow> calendar_date" where
  "add_days k d = (if 0 \<le> k then (next_day ^^ nat k) d else (prev_day ^^ nat (- k)) d)"

text \<open>The order of dates: by year, then month, then day.\<close>

definition date_le :: "calendar_date \<Rightarrow> calendar_date \<Rightarrow> bool" where
  "date_le a b =
     (year a < year b \<or>
      (year a = year b \<and> (month a < month b \<or> (month a = month b \<and> day a \<le> day b))))"

text \<open>The day of the week, 0 for Sunday, by Sakamoto's formula.\<close>

definition month_key :: "nat \<Rightarrow> int" where
  "month_key m =
     (if m = 1 then 0 else if m = 2 then 3 else if m = 3 then 2 else if m = 4 then 5
      else if m = 5 then 0 else if m = 6 then 3 else if m = 7 then 5 else if m = 8 then 1
      else if m = 9 then 4 else if m = 10 then 6 else if m = 11 then 2 else 4)"

definition weekday :: "calendar_date \<Rightarrow> nat" where
  "weekday d =
     (let y = (if month d < 3 then year d - 1 else year d)
      in nat ((y + y div 4 - y div 100 + y div 400 + month_key (month d) + int (day d)) mod 7))"

subsection \<open>Decimal fields of a date string\<close>

definition digit_char :: "nat \<Rightarrow> char" where
  "digit_char n = char_of (48 + n)"

definition digit_val :: "char \<Rightarrow> nat option" where
  "digit_val c =
     (let n = (of_char c :: nat) in if 48 \<le> n \<and> n \<le> 57 then Some (n - 48) else None)"

text \<open>\<open>n\<close> in \<open>w\<close> decimal digits, zero padded\<close>

fun digits :: "nat \<Rightarrow> nat \<Rightarrow> string" where
  "digits 0 n = []"
| "digits (Suc w) n = digits w (n div 10) @ [digit_char (n mod 10)]"

text \<open>the number a string of decimal digits writes, read from the left with \<open>acc\<close> so far\<close>

fun number :: "nat \<Rightarrow> string \<Rightarrow> nat option" where
  "number acc [] = Some acc"
| "number acc (c # cs) =
     (case digit_val c of None \<Rightarrow> None | Some v \<Rightarrow> number (10 * acc + v) cs)"

text \<open>The fields of a string of the form YYYY-MM-DD.\<close>

definition read_ymd :: "string \<Rightarrow> (nat \<times> nat \<times> nat) option" where
  "read_ymd s =
     (if length s = 10 \<and> s ! 4 = CHR ''-'' \<and> s ! 7 = CHR ''-''
      then (case (number 0 (take 4 s), number 0 (take 2 (drop 5 s)), number 0 (drop 8 s)) of
              (Some y, Some m, Some d) \<Rightarrow> Some (y, m, d)
            | _ \<Rightarrow> None)
      else None)"

subsection \<open>JavaScript dates\<close>

text \<open>
  The time value of a \<open>Date\<close> is an instant, kept here as its date in UTC and the
  milliseconds elapsed on that day, from 0 to 86399999. A local time is written in the
  same way, as a local date and the milliseconds of the local day.
\<close>

record instant =
  day_of :: calendar_date
  time_of :: int

definition msPerDay :: int where
  "msPerDay = 86400000"


text \<open>The instant \<open>k\<close> milliseconds after an instant.\<close>

definition plus_ms :: "int \<Rightarrow> instant \<Rightarrow> instant" where
  "plus_ms k t =
     \<lparr>day_of = add_days ((time_of t + k) div msPerDay) (day_of t),
      time_of = (time_of t + k) mod msPerDay\<rparr>"

datatype js_date = Invalid_Date | Date instant

text \<open>
  What the handler takes from the process it runs in. The time zone of the server:
  \<open>LocalTZA_utc t\<close> is the offset of local time from UTC, in milliseconds, at the
  instant \<open>t\<close>, and \<open>LocalTZA_local t\<close> the offset at the local time \<open>t\<close>. And
  \<open>Date_parse s\<close>, the date V8 reads from a string that is not a calendar date written
  YYYY-MM-DD: its other formats are not modelled.
\<close>

record host =
  LocalTZA_utc :: "instant \<Rightarrow> int"
  LocalTZA_local :: "instant \<Rightarrow> int"
  Date_parse :: "string \<Rightarrow> js_date"

text \<open>ECMAScript's LocalTime(t) and UTC(t)\<close>

definition LocalTime :: "host \<Rightarrow> instant \<Rightarrow> instant" where
  "LocalTime h t = plus_ms (LocalTZA_utc h t) t"

definition UTC :: "host \<Rightarrow> instant \<Rightarrow> instant" where
  "UTC h t = plus_ms (- LocalTZA_local h t) t"

text \<open>
  ECMAScript's TimeClip: a time value is at most 8.64e15 milliseconds from the epoch, that
  is from -271821-04-20T00:00:00Z to +275760-09-13T00:00:00Z; beyond, the date is
  Invalid Date.
\<close>

definition TimeClip :: "instant \<Rightarrow> js_date" where
  "TimeClip t =
     (let lo = \<lparr>year = - 271821, month = 4, day = 20\<rparr>;
          hi = \<lparr>year = 275760, month = 9, day = 13\<rparr>
      in if date_le lo (day_of t) \<and> date_le (day_of t) hi \<and>
            (if day_of t = hi then time_of t = 0 else True)
         then Date t else Invalid_Date)"

text \<open>
  \<open>new Date(s)\<close> for a string: a calendar date written YYYY-MM-DD is the start of that
  day in UTC.
\<close>

definition new_Date :: "host \<Rightarrow> string \<Rightarrow> js_date" where
  "new_Date h s =
     (case read_ymd s of
        None \<Rightarrow> Date_parse h s
      | Some (y, m, d) \<Rightarrow>
          (let c = \<lparr>year = int y, month = m, day = d\<rparr>
           in if valid_date c then Date \<lparr>day_of = c, time_of = 0\<rparr> else Date_parse h s))"

text \<open>
  \<open>d.setDate(d.getDate() + k)\<close>: the day of the month is read and set in local time,
  the time of the local day is kept, and the result is taken back to UTC.
\<close>

definition setDate_plus :: "host \<Rightarrow> int \<Rightarrow> js_date \<Rightarrow> js_date" where
  "setDate_plus h k d =
     (case d of
        Invalid_Date \<Rightarrow> Invalid_Date
      | Date t \<Rightarrow>
          (let l = LocalTime h t
           in TimeClip (UTC h \<lparr>day_of = add_days k (day_of l), time_of = time_of l\<rparr>)))"

text \<open>\<open>d.getDay()\<close>, of a valid date: the day of the week in local time\<close>

definition getDay :: "host \<Rightarrow> instant \<Rightarrow> nat" where
  "getDay h t = weekday (day_of (LocalTime h t))"

text \<open>
  \<open>d.toISOString().split('T')[0]\<close>: the date in UTC, with the year in four digits from
  0 to 9999, otherwise signed in six; a RangeError on Invalid Date.
\<close>

definition iso_year :: "int \<Rightarrow> string" where
  "iso_year y =
     (if 0 \<le> y \<and> y \<le> 9999 then digits 4 (nat y)
      else (if y < 0 then ''-'' else ''+'') @ digits 6 (nat \<bar>y\<bar>))"

definition iso_date :: "calendar_date \<Rightarrow> string" where
  "iso_date c = iso_year (year c) @ ''-'' @ digits 2 (month c) @ ''-'' @ digits 2 (day c)"


subsection \<open>The date range statement\<close>




subsection \<open>bcryptjs and jsonwebtoken\<close>

text \<open>
  The two libraries are not part of the repository; a handler receives their functions
  as they answer during its call. \<open>bcrypt_hash s r\<close> is the digest \<open>bcrypt.hash(s, r)\<close>
  resolves to (with the salt it draws), \<open>bcrypt_compare s h\<close> what
  \<open>bcrypt.compare(s, h)\<close> resolves to, \<open>jwt_sign c k e\<close> the token of
  \<open>jwt.sign(c, k, { expiresIn: e })\<close>. Both bcryptjs functions reject with
  "Illegal arguments" when an argument is not a string.
\<close>

record crypto =
  bcrypt_hash :: "string \<Rightarrow> nat \<Rightarrow> string"
  bcrypt_compare :: "string \<Rightarrow> string \<Rightarrow> bool"
  jwt_sign :: "(string \<times> json) list \<Rightarrow> string \<Rightarrow> string \<Rightarrow> string"

definition hash_senha :: "crypto \<Rightarrow> json option \<Rightarrow> nat \<Rightarrow> error + string" where
  "hash_senha lib s r =
     (case s of Some (JStr pw) \<Rightarrow> Inr (bcrypt_hash lib pw r) | _ \<Rightarrow> Inl IllegalArguments)"


subsection \<open>POST /cadastro\<close>

text \<open>
  The handler awaits the answer of its SELECT, then the digest, then the answer of its
  INSERT, with no transaction around them; while it waits, the pool serves the statements
  of other requests. It is embedded in two parts, cut where it has the answer of its
  SELECT: the first ends with the reply when the handler replies there, with nothing when
  it goes on; the second is the rest.
\<close>

definition cadastro_lookup :: "engine \<Rightarrow> request \<Rightarrow> pool \<Rightarrow> response option \<times> pool" where
  "cadastro_lookup eng req p =
     (let nome = field (body req) ''nome'';
          email = field (body req) ''email'';
          senha = field (body req) ''senha'';
          confirmar_senha = field (body req) ''confirmar_senha''
      in if \<not> truthy nome \<or> \<not> truthy email \<or> \<not> truthy senha \<or> \<not> truthy confirmar_senha
         then (Some (reply 400 ''message'' ''Todos os campos sao obrigatorios.''), p)
         else if \<not> strict_eq senha confirmar_senha
         then (Some (reply 400 ''message'' ''As senhas nao coincidem.''), p)
         else
           (case select_usuario_by_email eng (bound email) p of
              (Inl e, p1) \<Rightarrow> (Some (reply 500 ''message'' ''Erro interno do servidor.''), p1)
            | (Inr rows, p1) \<Rightarrow>
                if length rows > 0
                then (Some (reply 400 ''message'' ''E-mail ja cadastrado.''), p1)
                else (None, p1)))"

definition cadastro_insert :: "crypto \<Rightarrow> engine \<Rightarrow> request \<Rightarrow> pool \<Rightarrow> response \<times> pool" where
  "cadastro_insert lib eng req p1 =
     (let nome = field (body req) ''nome'';
          email = field (body req) ''email'';
          senha = field (body req) ''senha''
      in case hash_senha lib senha 10 of
           Inl e \<Rightarrow> (reply 500 ''message'' ''Erro interno do servidor.'', p1)
         | Inr hashedPassword \<Rightarrow>
             (case insert_usuario eng (bound nome) (bound email) hashedPassword p1 of
                (Inl e, p2) \<Rightarrow> (reply 500 ''message'' ''Erro interno do servidor.'', p2)
              | (Inr result, p2) \<Rightarrow>
                  (reply 201 ''message'' ''Usuario cadastrado com sucesso!'', p2)))"

text \<open>The handler served with no other request in between.\<close>

definition post_cadastro :: "crypto \<Rightarrow> engine \<Rightarrow> request \<Rightarrow> pool \<Rightarrow> response \<times> pool" where
  "post_cadastro lib eng req p =
     (case cadastro_lookup eng req p of
        (Some r, p1) \<Rightarrow> (r, p1)
      | (None, p1) \<Rightarrow> cadastro_insert lib eng req p1)"

subsection \<open>POST /login\<close>


subsection \<open>POST /usuario/:id/task\<close>

definition post_usuario_task :: "nat \<Rightarrow> request \<Rightarrow> pool \<Rightarrow> response \<times> pool" where
  "post_usuario_task i req p =
     (let text = field (body req) ''text'';
          date = field (body req) ''date'';
          priority = field (body req) ''priority'';
          folder = field (body req) ''folder''
      in if \<not> truthy text \<or> \<not> truthy date \<or> \<not> truthy priority \<or> \<not> truthy folder
         then (reply 400 ''message'' ''Todos os campos sao obrigatorios.'', p)
         else
           (let concluded = JBool False
            in case insert_task_owned (bound text) (bound date) (bound priority) (bound folder)
                      concluded i p of
                 (Inl e, p') \<Rightarrow> (reply 500 ''message'' ''Erro interno ao criar a tarefa.'', p')
               | (Inr insertId, p') \<Rightarrow>
                   (\<lparr>status = 201,
                     payload = Object [(''message'', JStr ''Tarefa criada com sucesso!''),
                                       (''taskId'', JNum (int insertId))]\<rparr>, p')))"

subsection \<open>PUT /usuario/:usuarioId/task/:taskId\<close>

definition put_usuario_task :: "nat \<Rightarrow> nat \<Rightarrow> request \<Rightarrow> pool \<Rightarrow> response \<times> pool" where
  "put_usuario_task usuarioId taskId req p =
     (let text = field (body req) ''text'';
          date = field (body req) ''date'';
          priority = field (body req) ''priority'';
          folder = field (body req) ''folder'';
          concluded = field (body req) ''concluded''
      in if \<not> truthy text \<or> \<not> truthy date \<or> \<not> truthy priority \<or> \<not> truthy folder
            \<or> concluded = None
         then (reply 400 ''message'' ''Todos os campos sao obrigatorios.'', p)
         else
           (case select_task_by_id_owner taskId usuarioId p of
              (Inl e, p1) \<Rightarrow> (reply 500 ''message'' ''Erro interno ao atualizar a tarefa.'', p1)
            | (Inr task, p1) \<Rightarrow>
                if length task = 0
                then (reply 404 ''message'' ''Tarefa nao encontrada para este usuario.'', p1)
                else
                  (case update_task (bound text) (bound date) (bound priority) (bound folder)
                          (bound concluded) taskId p1 of
                     (Inl e, p2) \<Rightarrow>
                       (reply 500 ''message'' ''Erro interno ao atualizar a tarefa.'', p2)
                   | (Inr result, p2) \<Rightarrow>
                       (reply 200 ''message'' ''Tarefa atualizada com sucesso!'', p2))))"

subsection \<open>DELETE /usuario/:usuarioId/task/:taskId\<close>

definition delete_usuario_task :: "nat \<Rightarrow> nat \<Rightarrow> request \<Rightarrow> pool \<Rightarrow> response \<times> pool" where
  "delete_usuario_task usuarioId taskId req p =
     (case select_task_by_id_owner taskId usuarioId p of
        (Inl e, p1) \<Rightarrow> (reply 500 ''message'' ''Erro interno ao deletar a tarefa.'', p1)
      | (Inr task, p1) \<Rightarrow>
          if length task = 0
          then (reply 404 ''message'' ''Tarefa nao encontrada para este usuario.'', p1)
          else
            (case delete_task taskId p1 of
               (Inl e, p2) \<Rightarrow> (reply 500 ''message'' ''Erro interno ao deletar a tarefa.'', p2)
             | (Inr result, p2) \<Rightarrow> (reply 200 ''message'' ''Tarefa deletada com sucesso!'', p2)))"

subsection \<open>POST /tasks\<close>

definition post_tasks :: "request \<Rightarrow> pool \<Rightarrow> response \<times> pool" where
  "post_tasks req p =
     (let text = field (body req) ''text'';
          date = field (body req) ''date'';
          priority = field (body req) ''priority'';
          folder = field (body req) ''folder''
      in if \<not> truthy text \<or> \<not> truthy date \<or> \<not> truthy priority
         then (reply 400 ''error'' ''Faltam campos obrigatorios (text, date, priority).'', p)
         else
           (let folderValue = (if truthy folder then bound folder else JStr ''default'');
                concluded = JBool False
            in case insert_task (bound text) (bound date) (bound priority) folderValue concluded p of
                 (Inl e, p') \<Rightarrow> (reply 500 ''error'' ''Erro ao inserir a tarefa.'', p')
               | (Inr insertId, p') \<Rightarrow>
                   (\<lparr>status = 201,
                     payload = Object [(''id'', JNum (int insertId)), (''text'', bound text),
                                       (''date'', bound date), (''priority'', bound priority),
                                       (''folder'', folderValue), (''concluded'', concluded)]\<rparr>,
                    p')))"

subsection \<open>PATCH /tasks/:id\<close>

definition patch_tasks :: "nat \<Rightarrow> request \<Rightarrow> pool \<Rightarrow> response \<times> pool" where
  "patch_tasks i req p =
     (case field (body req) ''concluded'' of
        None \<Rightarrow> (reply 400 ''error'' ''Campo concluded e obrigatorio para atualizacao.'', p)
      | Some concluded \<Rightarrow>
          (case update_concluded concluded i p of
             (Inl e, p') \<Rightarrow> (reply 500 ''error'' ''Erro ao atualizar a tarefa.'', p')
           | (Inr affectedRows, p') \<Rightarrow>
               if affectedRows = 0 then (reply 404 ''error'' ''Tarefa nao encontrada.'', p')
               else (reply 200 ''message'' ''Tarefa atualizada com sucesso.'', p')))"

subsection \<open>GET /tasks/week\<close>

text \<open>
  \<open>if (start)\<close> on a value of the query: the empty string is falsy. And the string
  \<open>new Date(start)\<close> reads: the value itself, or for an array its elements joined by
  commas, and for an object "[object Object]".
\<close>

fun q_truthy :: "qvalue \<Rightarrow> bool" where
  "q_truthy (QStr s) = (s \<noteq> [])"
| "q_truthy (QArr xs) = True"
| "q_truthy (QObj kvs) = True"

fun commas :: "string list \<Rightarrow> string" where
  "commas [] = []"
| "commas [x] = x"
| "commas (x # y # ys) = x @ '','' @ commas (y # ys)"

fun q_string :: "qvalue \<Rightarrow> string" where
  "q_string (QStr s) = s"
| "q_string (QArr xs) = commas (map q_string xs)"
| "q_string (QObj kvs) = ''[object Object]''"

text \<open>
  \<open>startDate\<close>: the date read from the query parameter \<open>start\<close> when it is given and
  not empty, otherwise the Sunday of the current week in local time, at the current time
  of day. \<open>now\<close> is the instant of \<open>new Date()\<close> when the request is served.
\<close>

definition week_startDate :: "host \<Rightarrow> instant \<Rightarrow> request \<Rightarrow> js_date" where
  "week_startDate h now req =
     (case map_of (query req) ''start'' of
        Some start \<Rightarrow>
          if q_truthy start then new_Date h (q_string start)
          else setDate_plus h (- int (getDay h now)) (Date now)
      | None \<Rightarrow> setDate_plus h (- int (getDay h now)) (Date now))"


section \<open>Properties\<close>

subsection \<open>Vocabulary\<close>

text \<open>The tables and their counters are the same in two pools.\<close>

definition same_tables :: "pool \<Rightarrow> pool \<Rightarrow> bool" where
  "same_tables p p' =
     (usuario_tbl p' = usuario_tbl p \<and> tasks_tbl p' = tasks_tbl p \<and>
      usuario_auto p' = usuario_auto p \<and> tasks_auto p' = tasks_auto p)"

text \<open>Task \<open>i\<close> exists and its owner reference is \<open>u\<close>.\<close>

definition owned :: "nat \<Rightarrow> nat \<Rightarrow> pool \<Rightarrow> bool" where
  "owned u i p = (\<exists>t \<in> set (tasks_tbl p). t_id t = i \<and> t_usuario_id t = Some u)"

text \<open>The body passes the test of the owner-scoped update for its five fields.\<close>

definition complete_update :: "request \<Rightarrow> bool" where
  "complete_update req =
     (truthy (field (body req) ''text'') \<and> truthy (field (body req) ''date'') \<and>
      truthy (field (body req) ''priority'') \<and> truthy (field (body req) ''folder'') \<and>
      field (body req) ''concluded'' \<noteq> None)"





text \<open>
  Registrations served together. A registration in flight has arrived, or has the answer
  of its SELECT and goes on, or has replied; \<open>advance\<close> runs it to the next of these
  points. \<open>serve\<close> advances the registrations in the order of a schedule, which names
  them by position.
\<close>

datatype phase = Arrived | Looked_up | Replied response

definition advance ::
  "engine \<Rightarrow> crypto \<times> request \<times> phase \<Rightarrow> pool \<Rightarrow> (crypto \<times> request \<times> phase) \<times> pool" where
  "advance eng x p =
     (case x of (lib, req, ph) \<Rightarrow>
        (case ph of
           Arrived \<Rightarrow>
             (case cadastro_lookup eng req p of
                (Some r, p1) \<Rightarrow> ((lib, req, Replied r), p1)
              | (None, p1) \<Rightarrow> ((lib, req, Looked_up), p1))
         | Looked_up \<Rightarrow>
             (case cadastro_insert lib eng req p of (r, p2) \<Rightarrow> ((lib, req, Replied r), p2))
         | Replied r \<Rightarrow> (x, p)))"

fun serve ::
  "engine \<Rightarrow> nat list \<Rightarrow> (crypto \<times> request \<times> phase) list \<Rightarrow> pool \<Rightarrow>
     (crypto \<times> request \<times> phase) list \<times> pool" where
  "serve eng [] xs p = (xs, p)"
| "serve eng (i # sched) xs p =
     (if i < length xs
      then (case advance eng (xs ! i) p of (x, p') \<Rightarrow> serve eng sched (xs[i := x]) p')
      else serve eng sched xs p)"





text \<open>
  A pool to evaluate the handlers on: one user, and four tasks: one of user 1, one of
  user 2 and two without owner.
\<close>

definition sample_pool :: pool where
  "sample_pool =
     \<lparr>usuario_tbl =
        [\<lparr>u_id = 1, u_nome = JStr ''Ana'', u_email = JStr ''a@x.com'', u_senha = ''#secret''\<rparr>],
      tasks_tbl =
        [\<lparr>t_id = 1, t_text = JStr ''feira'', t_date = JStr ''2024-02-25'', t_priority = JStr ''alta'',
          t_folder = JStr ''casa'', t_concluded = JBool False, t_usuario_id = Some 1\<rparr>,
         \<lparr>t_id = 2, t_text = JStr ''prova'', t_date = JStr ''2024-03-02'', t_priority = JStr ''media'',
          t_folder = JStr ''escola'', t_concluded = JBool False, t_usuario_id = Some 2\<rparr>,
         \<lparr>t_id = 3, t_text = JStr ''banco'', t_date = JStr ''2024-02-24'', t_priority = JStr ''baixa'',
          t_folder = JStr ''default'', t_concluded = JBool True, t_usuario_id = None\<rparr>,
         \<lparr>t_id = 4, t_text = JStr ''carta'', t_date = JStr ''2024-03-03'', t_priority = JStr ''baixa'',
          t_folder = JStr ''default'', t_concluded = JBool False, t_usuario_id = None\<rparr>],
      usuario_auto = 2, tasks_auto = 5, issued = [], rejects = []\<rparr>"






subsection \<open>Rows selected by identifier\<close>

lemma filter_id_none: "\<forall>t \<in> set ts. t_id t \<noteq> i \<Longrightarrow> [t \<leftarrow> ts. t_id t = i] = []"
  by (simp add: filter_empty_conv)

lemma map_id_none:
  "\<forall>t \<in> set ts. t_id t \<noteq> i \<Longrightarrow> map (\<lambda>t. if t_id t = i then f t else t) ts = ts"
  by (simp add: map_idI)

lemma filter_not_owned:
  "\<not> owned u i p \<Longrightarrow> [t \<leftarrow> tasks_tbl p. t_id t = i \<and> t_usuario_id t = Some u] = []"
  by (auto simp: owned_def filter_empty_conv)

lemma filter_owned:
  "owned u i p \<Longrightarrow> [t \<leftarrow> tasks_tbl p. t_id t = i \<and> t_usuario_id t = Some u] \<noteq> []"
  by (auto simp: owned_def filter_empty_conv)

lemma not_owned_cases:
  "(\<forall>t \<in> set (tasks_tbl p). t_id t \<noteq> i) \<or>
   (\<forall>t \<in> set (tasks_tbl p). t_id t = i \<longrightarrow> t_usuario_id t \<noteq> Some u) \<Longrightarrow> \<not> owned u i p"
  by (auto simp: owned_def)

subsection \<open>The ownership guard\<close>

text \<open>
  Claim C1. The owner-scoped delete and update look the task up by its identifier and
  the owner's together. When the task does not exist, and when it exists with another
  owner reference (or none), the lookup is empty, and with the statement accepted by the
  pool the answer is in both cases the same 404 response, the tables left as they were.
  The update reaches the lookup when its body has the five fields; the delete always.
\<close>

theorem ownership_guard_denies:
  assumes "(\<forall>t \<in> set (tasks_tbl p). t_id t \<noteq> taskId) \<or>
           (\<forall>t \<in> set (tasks_tbl p). t_id t = taskId \<longrightarrow> t_usuario_id t \<noteq> Some usuarioId)"
      and "\<not> rejected p"
  shows "fst (delete_usuario_task usuarioId taskId req p) =
           reply 404 ''message'' ''Tarefa nao encontrada para este usuario.'' \<and>
         same_tables p (snd (delete_usuario_task usuarioId taskId req p)) \<and>
         (complete_update req' \<longrightarrow>
            fst (put_usuario_task usuarioId taskId req' p) =
              reply 404 ''message'' ''Tarefa nao encontrada para este usuario.'' \<and>
            same_tables p (snd (put_usuario_task usuarioId taskId req' p)))"
proof -
  have no: "\<not> owned usuarioId taskId p"
    using assms(1) by (rule not_owned_cases)
  show ?thesis
    using assms(2) filter_not_owned [OF no]
    by (auto simp: delete_usuario_task_def put_usuario_task_def select_task_by_id_owner_def
          statement_def same_tables_def complete_update_def Let_def)
qed

text \<open>
  Claim C1, at the sample pool: task 9 does not exist, task 2 belongs to user 2; user 1
  gets the same 404 for both, from the delete and from the update.
\<close>

theorem ownership_guard_denies_witness:
  "fst (delete_usuario_task 1 9 \<lparr>headers = [], query = [], body = []\<rparr> sample_pool) =
     reply 404 ''message'' ''Tarefa nao encontrada para este usuario.'' \<and>
   fst (delete_usuario_task 1 2 \<lparr>headers = [], query = [], body = []\<rparr> sample_pool) =
     reply 404 ''message'' ''Tarefa nao encontrada para este usuario.'' \<and>
   tasks_tbl (snd (delete_usuario_task 1 2 \<lparr>headers = [], query = [], body = []\<rparr> sample_pool)) =
     tasks_tbl sample_pool \<and>
   fst (put_usuario_task 1 2
          \<lparr>headers = [], query = [],
            body = [(''text'', JStr ''x''), (''date'', JStr ''2024-03-02''), (''priority'', JStr ''alta''),
                    (''folder'', JStr ''casa''), (''concluded'', JBool True)]\<rparr> sample_pool) =
     reply 404 ''message'' ''Tarefa nao encontrada para este usuario.'' \<and>
   fst (put_usuario_task 1 9
          \<lparr>headers = [], query = [],
            body = [(''text'', JStr ''x''), (''date'', JStr ''2024-03-02''), (''priority'', JStr ''alta''),
                    (''folder'', JStr ''casa''), (''concluded'', JBool True)]\<rparr> sample_pool) =
     reply 404 ''message'' ''Tarefa nao encontrada para este usuario.''"
  using ownership_guard_denies
          [where p = sample_pool and taskId = 9 and usuarioId = 1
             and req = "\<lparr>headers = [], query = [], body = []\<rparr>"
             and req' = "\<lparr>headers = [], query = [],
                           body = [(''text'', JStr ''x''), (''date'', JStr ''2024-03-02''),
                                   (''priority'', JStr ''alta''), (''folder'', JStr ''casa''),
                                   (''concluded'', JBool True)]\<rparr>"]
        ownership_guard_denies
          [where p = sample_pool and taskId = 2 and usuarioId = 1
             and req = "\<lparr>headers = [], query = [], body = []\<rparr>"
             and req' = "\<lparr>headers = [], query = [],
                           body = [(''text'', JStr ''x''), (''date'', JStr ''2024-03-02''),
                                   (''priority'', JStr ''alta''), (''folder'', JStr ''casa''),
                                   (''concluded'', JBool True)]\<rparr>"]
  by (simp add: sample_pool_def rejected_def complete_update_def field_def same_tables_def)

text \<open>
  Claim C2, as stated, fails: no handler decodes or verifies a token. A request with no
  header at all deletes task 1 of user 1; the only statements issued are the ownership
  lookup and the delete.
\<close>

theorem delete_without_token_counterexample:
  "headers \<lparr>headers = [], query = [], body = []\<rparr> = [] \<and>
   fst (delete_usuario_task 1 1 \<lparr>headers = [], query = [], body = []\<rparr> sample_pool) =
     reply 200 ''message'' ''Tarefa deletada com sucesso!'' \<and>
   issued (snd (delete_usuario_task 1 1 \<lparr>headers = [], query = [], body = []\<rparr> sample_pool)) =
     [SelectTaskByIdOwner 1 1, DeleteTask 1] \<and>
   map t_id (tasks_tbl (snd (delete_usuario_task 1 1 \<lparr>headers = [], query = [], body = []\<rparr>
     sample_pool))) = [2, 3, 4]"
  by (simp add: delete_usuario_task_def select_task_by_id_owner_def delete_task_def
        statement_def rejected_def sample_pool_def reply_def)

text \<open>
  Claim C2, amended. The handlers of the owner-scoped update and delete verify no token
  (they read no header, and the application installs no middleware that would). What
  holds is the order of the ownership check and the repository operation: the handler
  issues the ownership lookup first, and the UPDATE or DELETE only after a lookup that was
  accepted and found the task with that owner; otherwise the tables are left as they
  were.
\<close>

theorem owner_scoped_order:
  "issued (snd (delete_usuario_task u i req p)) =
     issued p @ (if rejected p \<or> \<not> owned u i p then [SelectTaskByIdOwner i u]
                 else [SelectTaskByIdOwner i u, DeleteTask i]) \<and>
   issued (snd (put_usuario_task u i req p)) =
     issued p @ (if \<not> complete_update req then []
                 else if rejected p \<or> \<not> owned u i p then [SelectTaskByIdOwner i u]
                 else [SelectTaskByIdOwner i u,
                       UpdateTask (bound (field (body req) ''text'')) (bound (field (body req) ''date''))
                         (bound (field (body req) ''priority'')) (bound (field (body req) ''folder''))
                         (bound (field (body req) ''concluded'')) i]) \<and>
   (rejected p \<or> \<not> owned u i p \<longrightarrow>
      same_tables p (snd (delete_usuario_task u i req p)) \<and>
      same_tables p (snd (put_usuario_task u i req p)))"
proof (cases "owned u i p")
  case True
  show ?thesis
    using filter_owned [OF True] True
    by (simp add: delete_usuario_task_def put_usuario_task_def select_task_by_id_owner_def
          delete_task_def update_task_def statement_def same_tables_def complete_update_def Let_def)
next
  case False
  show ?thesis
    using filter_not_owned [OF False] False
    by (simp add: delete_usuario_task_def put_usuario_task_def select_task_by_id_owner_def
          statement_def same_tables_def complete_update_def Let_def)
qed

text \<open>
  Claim C2, amended, at the sample pool: user 1 asking to delete task 2, which user 2
  owns, issues the lookup alone and leaves the tasks as they were.
\<close>

theorem owner_scoped_order_witness:
  "\<not> owned 1 2 sample_pool \<and>
   issued (snd (delete_usuario_task 1 2 \<lparr>headers = [], query = [], body = []\<rparr> sample_pool)) =
     [SelectTaskByIdOwner 2 1] \<and>
   tasks_tbl (snd (delete_usuario_task 1 2 \<lparr>headers = [], query = [], body = []\<rparr> sample_pool)) =
     tasks_tbl sample_pool"
  using owner_scoped_order
          [where u = 1 and i = 2 and req = "\<lparr>headers = [], query = [], body = []\<rparr>"
             and p = sample_pool]
  by (simp add: owned_def same_tables_def sample_pool_def)

subsection \<open>PATCH /tasks/:id\<close>

text \<open>
  Claim C4, as stated, fails: the handler reads the field \<open>concluded\<close>, not
  \<open>completed\<close>. The body \<open>{"completed": true}\<close> for the absent task 5 lacks
  \<open>concluded\<close> and is answered 400, not 404; and the body \<open>{"concluded": true}\<close>,
  which lacks \<open>completed\<close>, is answered 200 for task 1 and sets its flag.
\<close>

theorem patch_completed_counterexample:
  "fst (patch_tasks 5 \<lparr>headers = [], query = [], body = [(''completed'', JBool True)]\<rparr> sample_pool) =
     reply 400 ''error'' ''Campo concluded e obrigatorio para atualizacao.'' \<and>
   field [(''concluded'', JBool True)] ''completed'' = None \<and>
   fst (patch_tasks 1 \<lparr>headers = [], query = [], body = [(''concluded'', JBool True)]\<rparr> sample_pool) =
     reply 200 ''message'' ''Tarefa atualizada com sucesso.'' \<and>
   map t_concluded (tasks_tbl (snd (patch_tasks 1
     \<lparr>headers = [], query = [], body = [(''concluded'', JBool True)]\<rparr> sample_pool))) =
     [JBool True, JBool False, JBool True, JBool False]"
  by (simp add: patch_tasks_def update_concluded_def statement_def rejected_def field_def
        sample_pool_def reply_def)

text \<open>
  Claim C4, amended. A body lacking the field \<open>concluded\<close> is answered 400 and the
  pool is left as it was; a body with \<open>concluded\<close> (such as \<open>{"concluded": true}\<close>)
  for an identifier no task has is answered 404, the statement being accepted, and the
  tables are left as they were.
\<close>

theorem patch_tasks_concluded_field:
  "(field (body req) ''concluded'' = None \<longrightarrow>
      patch_tasks i req p =
        (reply 400 ''error'' ''Campo concluded e obrigatorio para atualizacao.'', p)) \<and>
   (field (body req) ''concluded'' = Some c \<and> (\<forall>t \<in> set (tasks_tbl p). t_id t \<noteq> i) \<and>
    \<not> rejected p \<longrightarrow>
      fst (patch_tasks i req p) = reply 404 ''error'' ''Tarefa nao encontrada.'' \<and>
      same_tables p (snd (patch_tasks i req p)))"
proof (intro conjI impI)
  assume "field (body req) ''concluded'' = None"
  then show "patch_tasks i req p =
               (reply 400 ''error'' ''Campo concluded e obrigatorio para atualizacao.'', p)"
    by (simp add: patch_tasks_def)
next
  assume a: "field (body req) ''concluded'' = Some c \<and>
             (\<forall>t \<in> set (tasks_tbl p). t_id t \<noteq> i) \<and> \<not> rejected p"
  then have none: "[t \<leftarrow> tasks_tbl p. t_id t = i] = []"
    and same: "map (\<lambda>t. if t_id t = i then t\<lparr>t_concluded := c\<rparr> else t) (tasks_tbl p) = tasks_tbl p"
    by (simp_all add: filter_id_none map_id_none)
  from a have run: "update_concluded c i p =
                      (Inr (length [t \<leftarrow> tasks_tbl p. t_id t = i]),
                       p\<lparr>issued := issued p @ [UpdateConcluded c i], rejects := tl (rejects p),
                         tasks_tbl := tasks_tbl p\<rparr>)"
    by (simp add: update_concluded_def statement_def same)
  from a show "fst (patch_tasks i req p) = reply 404 ''error'' ''Tarefa nao encontrada.''"
    and "same_tables p (snd (patch_tasks i req p))"
    by (simp_all add: patch_tasks_def run none same_tables_def)
qed

text \<open>
  Claim C4, amended, at the sample pool: \<open>PATCH /tasks/5\<close> with \<open>{}\<close> gives 400,
  with \<open>{"concluded": true}\<close> 404.
\<close>

theorem patch_tasks_concluded_field_witness:
  "field (body \<lparr>headers = [], query = [], body = []\<rparr>) ''concluded'' = None \<and>
   patch_tasks 5 \<lparr>headers = [], query = [], body = []\<rparr> sample_pool =
     (reply 400 ''error'' ''Campo concluded e obrigatorio para atualizacao.'', sample_pool) \<and>
   field (body \<lparr>headers = [], query = [], body = [(''concluded'', JBool True)]\<rparr>) ''concluded'' =
     Some (JBool True) \<and>
   5 \<notin> t_id ` set (tasks_tbl sample_pool) \<and> \<not> rejected sample_pool \<and>
   fst (patch_tasks 5 \<lparr>headers = [], query = [], body = [(''concluded'', JBool True)]\<rparr> sample_pool) =
     reply 404 ''error'' ''Tarefa nao encontrada.''"
  using patch_tasks_concluded_field
          [where req = "\<lparr>headers = [], query = [], body = []\<rparr>" and i = 5 and p = sample_pool]
        patch_tasks_concluded_field
          [where req = "\<lparr>headers = [], query = [], body = [(''concluded'', JBool True)]\<rparr>"
             and c = "JBool True" and p = sample_pool and i = 5]
  by (simp add: field_def rejected_def sample_pool_def)

text \<open>
  Claim C10. A PATCH answered 200 found the task, and changed nothing but the completion
  flag of the rows with that identifier: every row keeps its identifier, text, date,
  priority, folder and owner reference, every row with another identifier is the row it
  was, and the users and both counters are as they were. The flag of the task is the
  value the body gave.
\<close>

theorem patch_tasks_frame:
  assumes "patch_tasks i req p = (r, p')" and "status r = 200"
  shows "map t_id (tasks_tbl p') = map t_id (tasks_tbl p) \<and>
         map t_text (tasks_tbl p') = map t_text (tasks_tbl p) \<and>
         map t_date (tasks_tbl p') = map t_date (tasks_tbl p) \<and>
         map t_priority (tasks_tbl p') = map t_priority (tasks_tbl p) \<and>
         map t_folder (tasks_tbl p') = map t_folder (tasks_tbl p) \<and>
         map t_usuario_id (tasks_tbl p') = map t_usuario_id (tasks_tbl p) \<and>
         (\<forall>k < length (tasks_tbl p).
            t_id (tasks_tbl p ! k) \<noteq> i \<longrightarrow> tasks_tbl p' ! k = tasks_tbl p ! k) \<and>
         (\<forall>t \<in> set (tasks_tbl p').
            t_id t = i \<longrightarrow> Some (t_concluded t) = field (body req) ''concluded'') \<and>
         (\<exists>t \<in> set (tasks_tbl p). t_id t = i) \<and>
         usuario_tbl p' = usuario_tbl p \<and> usuario_auto p' = usuario_auto p \<and>
         tasks_auto p' = tasks_auto p"
proof -
  from assms obtain c where c: "field (body req) ''concluded'' = Some c"
    by (cases "field (body req) ''concluded''") (auto simp: patch_tasks_def reply_def)
  from assms c have acc: "\<not> rejected p"
    by (auto simp: patch_tasks_def update_concluded_def statement_def reply_def split: if_splits)
  from assms c acc have some: "[t \<leftarrow> tasks_tbl p. t_id t = i] \<noteq> []"
    by (auto simp: patch_tasks_def update_concluded_def statement_def reply_def split: if_splits)
  from assms c acc some
  have p': "p' = p\<lparr>issued := issued p @ [UpdateConcluded c i], rejects := tl (rejects p),
                  tasks_tbl := map (\<lambda>t. if t_id t = i then t\<lparr>t_concluded := c\<rparr> else t) (tasks_tbl p)\<rparr>"
    by (auto simp: patch_tasks_def update_concluded_def statement_def reply_def split: if_splits)
  have ex: "\<exists>t \<in> set (tasks_tbl p). t_id t = i"
    using some by (auto simp: filter_empty_conv)
  show ?thesis
    using ex by (auto simp: p' c)
qed

text \<open>
  Claim C10, at the sample pool: \<open>PATCH /tasks/3\<close> with \<open>{"concluded": false}\<close> is
  answered 200; of the four tasks only the third differs, and only in its flag.
\<close>

theorem patch_tasks_frame_witness:
  "status (fst (patch_tasks 3 \<lparr>headers = [], query = [], body = [(''concluded'', JBool False)]\<rparr>
     sample_pool)) = 200 \<and>
   map t_text (tasks_tbl (snd (patch_tasks 3
     \<lparr>headers = [], query = [], body = [(''concluded'', JBool False)]\<rparr> sample_pool))) =
     map t_text (tasks_tbl sample_pool) \<and>
   map t_usuario_id (tasks_tbl (snd (patch_tasks 3
     \<lparr>headers = [], query = [], body = [(''concluded'', JBool False)]\<rparr> sample_pool))) =
     map t_usuario_id (tasks_tbl sample_pool) \<and>
   map t_concluded (tasks_tbl (snd (patch_tasks 3
     \<lparr>headers = [], query = [], body = [(''concluded'', JBool False)]\<rparr> sample_pool))) =
     [JBool False, JBool False, JBool False, JBool False]"
proof -
  let ?req = "\<lparr>headers = [], query = [], body = [(''concluded'', JBool False)]\<rparr>"
  have run: "patch_tasks 3 ?req sample_pool =
               (fst (patch_tasks 3 ?req sample_pool), snd (patch_tasks 3 ?req sample_pool))"
    by simp
  have ok: "status (fst (patch_tasks 3 ?req sample_pool)) = 200"
    by (simp add: patch_tasks_def update_concluded_def statement_def rejected_def field_def
          sample_pool_def reply_def)
  have flags: "map t_concluded (tasks_tbl (snd (patch_tasks 3 ?req sample_pool))) =
                 [JBool False, JBool False, JBool False, JBool False]"
    by (simp add: patch_tasks_def update_concluded_def statement_def rejected_def field_def
          sample_pool_def reply_def)
  from patch_tasks_frame [OF run ok] ok flags show ?thesis by simp
qed

subsection \<open>Creating a task\<close>

text \<open>
  Claim C7. With text, date and priority present (each passing the handler's test
  \<open>!x\<close>, so defined and not empty) and no folder, \<open>POST /tasks\<close> is answered 201, the
  statement being accepted, and appends one task with folder "default", completion flag
  false and no owner. With no folder, \<open>POST /usuario/:id/task\<close> is answered 400 and the
  pool is left as it was.
\<close>

theorem creation_folder_asymmetry:
  "(truthy (field (body req) ''text'') \<and> truthy (field (body req) ''date'') \<and>
    truthy (field (body req) ''priority'') \<and> field (body req) ''folder'' = None \<and>
    \<not> rejected p \<longrightarrow>
      status (fst (post_tasks req p)) = 201 \<and>
      tasks_tbl (snd (post_tasks req p)) =
        tasks_tbl p @
          [\<lparr>t_id = tasks_auto p, t_text = bound (field (body req) ''text''),
            t_date = bound (field (body req) ''date''),
            t_priority = bound (field (body req) ''priority''),
            t_folder = JStr ''default'', t_concluded = JBool False, t_usuario_id = None\<rparr>]) \<and>
   (field (body req') ''folder'' = None \<longrightarrow>
      post_usuario_task i req' p = (reply 400 ''message'' ''Todos os campos sao obrigatorios.'', p))"
proof (intro conjI impI)
  assume a: "truthy (field (body req) ''text'') \<and> truthy (field (body req) ''date'') \<and>
             truthy (field (body req) ''priority'') \<and> field (body req) ''folder'' = None \<and>
             \<not> rejected p"
  then have folder: "\<not> truthy (field (body req) ''folder'')" by simp
  from a have run:
    "insert_task (bound (field (body req) ''text'')) (bound (field (body req) ''date''))
       (bound (field (body req) ''priority'')) (JStr ''default'') (JBool False) p =
     (Inr (tasks_auto p),
      p\<lparr>issued := issued p @
           [InsertTask (bound (field (body req) ''text'')) (bound (field (body req) ''date''))
              (bound (field (body req) ''priority'')) (JStr ''default'') (JBool False)],
        rejects := tl (rejects p),
        tasks_tbl := tasks_tbl p @
          [\<lparr>t_id = tasks_auto p, t_text = bound (field (body req) ''text''),
            t_date = bound (field (body req) ''date''),
            t_priority = bound (field (body req) ''priority''),
            t_folder = JStr ''default'', t_concluded = JBool False, t_usuario_id = None\<rparr>],
        tasks_auto := Suc (tasks_auto p)\<rparr>)"
    by (simp add: insert_task_def statement_def)
  from a folder show "status (fst (post_tasks req p)) = 201"
    by (simp add: post_tasks_def run Let_def)
  from a folder show "tasks_tbl (snd (post_tasks req p)) =
        tasks_tbl p @
          [\<lparr>t_id = tasks_auto p, t_text = bound (field (body req) ''text''),
            t_date = bound (field (body req) ''date''),
            t_priority = bound (field (body req) ''priority''),
            t_folder = JStr ''default'', t_concluded = JBool False, t_usuario_id = None\<rparr>]"
    by (simp add: post_tasks_def run Let_def)
next
  assume "field (body req') ''folder'' = None"
  then have "\<not> truthy (field (body req') ''folder'')" by simp
  then show "post_usuario_task i req' p =
               (reply 400 ''message'' ''Todos os campos sao obrigatorios.'', p)"
    by (simp add: post_usuario_task_def)
qed

text \<open>
  Claim C7, at the sample pool, for the body
  \<open>{"text": "ler", "date": "2024-03-01", "priority": "alta"}\<close> sent to both routes.
\<close>

theorem creation_folder_asymmetry_witness:
  "status (fst (post_tasks
     \<lparr>headers = [], query = [],
       body = [(''text'', JStr ''ler''), (''date'', JStr ''2024-03-01''), (''priority'', JStr ''alta'')]\<rparr>
     sample_pool)) = 201 \<and>
   tasks_tbl (snd (post_tasks
     \<lparr>headers = [], query = [],
       body = [(''text'', JStr ''ler''), (''date'', JStr ''2024-03-01''), (''priority'', JStr ''alta'')]\<rparr>
     sample_pool)) =
     tasks_tbl sample_pool @
       [\<lparr>t_id = 5, t_text = JStr ''ler'', t_date = JStr ''2024-03-01'', t_priority = JStr ''alta'',
         t_folder = JStr ''default'', t_concluded = JBool False, t_usuario_id = None\<rparr>] \<and>
   post_usuario_task 1
     \<lparr>headers = [], query = [],
       body = [(''text'', JStr ''ler''), (''date'', JStr ''2024-03-01''), (''priority'', JStr ''alta'')]\<rparr>
     sample_pool =
     (reply 400 ''message'' ''Todos os campos sao obrigatorios.'', sample_pool)"
  using creation_folder_asymmetry
          [where req = "\<lparr>headers = [], query = [],
                          body = [(''text'', JStr ''ler''), (''date'', JStr ''2024-03-01''),
                                  (''priority'', JStr ''alta'')]\<rparr>"
             and p = sample_pool
             and req' = "\<lparr>headers = [], query = [],
                           body = [(''text'', JStr ''ler''), (''date'', JStr ''2024-03-01''),
                                   (''priority'', JStr ''alta'')]\<rparr>"
             and i = 1]
  by (simp add: field_def rejected_def bound_def sample_pool_def)

subsection \<open>Registration\<close>











text \<open>
  A registration advanced twice with nothing in between is the handler served alone.
\<close>

lemma serve_alone:
  "serve eng [0, 0] [(lib, req, Arrived)] p =
     ([(lib, req, Replied (fst (post_cadastro lib eng req p)))], snd (post_cadastro lib eng req p))"
  by (cases "cadastro_lookup eng req p")
     (auto simp: advance_def post_cadastro_def split: option.splits prod.splits)




subsection \<open>Login\<close>






subsection \<open>The week listing\<close>

text \<open>Writing a number in decimal and reading it back.\<close>

lemma digit_val_digit_char: "n < 10 \<Longrightarrow> digit_val (digit_char n) = Some n"
  by (simp add: digit_val_def digit_char_def)

lemma length_digits: "length (digits w n) = w"
  by (induction w arbitrary: n) simp_all

lemma number_append:
  "number acc (xs @ ys) = (case number acc xs of None \<Rightarrow> None | Some a \<Rightarrow> number a ys)"
  by (induction xs arbitrary: acc) (simp_all split: option.splits)

lemma number_digits: "n < 10 ^ w \<Longrightarrow> number acc (digits w n) = Some (acc * 10 ^ w + n)"
proof (induction w arbitrary: n)
  case 0
  then show ?case by simp
next
  case (Suc w)
  from Suc.prems have small: "n div 10 < 10 ^ w"
    by (simp add: less_mult_imp_div_less mult.commute)
  have "number acc (digits (Suc w) n) = Some (10 * (acc * 10 ^ w + n div 10) + n mod 10)"
    by (simp add: number_append Suc.IH [OF small] digit_val_digit_char)
  also have "10 * (acc * 10 ^ w + n div 10) + n mod 10 = acc * 10 ^ Suc w + n"
    by (simp add: algebra_simps)
  finally show ?case .
qed

lemma read_ymd_digits:
  assumes "y < 10000" and "m < 100" and "d < 100"
  shows "read_ymd (digits 4 y @ ''-'' @ digits 2 m @ ''-'' @ digits 2 d) = Some (y, m, d)"
proof -
  let ?s = "digits 4 y @ ''-'' @ digits 2 m @ ''-'' @ digits 2 d"
  have len: "length ?s = 10" by (simp add: length_digits)
  have d4: "?s ! 4 = CHR ''-''" by (simp add: nth_append length_digits)
  have d7: "?s ! 7 = CHR ''-''" by (simp add: nth_append length_digits)
  have y: "take 4 ?s = digits 4 y" by (simp add: length_digits)
  have m: "take 2 (drop 5 ?s) = digits 2 m" by (simp add: length_digits)
  have d: "drop 8 ?s = digits 2 d" by (simp add: length_digits)
  have ny: "number 0 (digits 4 y) = Some y" using number_digits [of y 4 0] assms by simp
  have nm: "number 0 (digits 2 m) = Some m" using number_digits [of m 2 0] assms by simp
  have nd: "number 0 (digits 2 d) = Some d" using number_digits [of d 2 0] assms by simp
  show ?thesis
    unfolding read_ymd_def using len d4 d7 by (simp only: y m d ny nm nd) simp
qed

text \<open>The calendar: successors and predecessors of dates are dates, and are ordered.\<close>

lemma days_in_month_bounds: "1 \<le> days_in_month y m \<and> days_in_month y m \<le> 31"
  by (simp add: days_in_month_def)
























lemma year_next_day_le: "year (next_day c) \<le> year c + 1"
  by (simp add: next_day_def)

text \<open>
  A calendar date with a year of four digits, written as \<open>formatDate\<close> writes it, is
  read by \<open>new Date\<close> as the start of that day in UTC.
\<close>

lemma new_Date_iso_date:
  assumes "valid_date c" and "0 \<le> year c" and "year c \<le> 9999"
  shows "new_Date h (iso_date c) = Date \<lparr>day_of = c, time_of = 0\<rparr>"
proof -
  have m: "month c < 100" using assms(1) by (simp add: valid_date_def)
  have d31: "day c \<le> 31"
    using assms(1) days_in_month_bounds [of "year c" "month c"] by (simp add: valid_date_def)
  then have d: "day c < 100" by simp
  have y: "nat (year c) < 10000" using assms(2,3) by simp
  have iso: "iso_date c = digits 4 (nat (year c)) @ ''-'' @ digits 2 (month c) @ ''-'' @ digits 2 (day c)"
    using assms(2,3) by (simp add: iso_date_def iso_year_def)
  have r: "read_ymd (iso_date c) = Some (nat (year c), month c, day c)"
    unfolding iso by (rule read_ymd_digits [OF y m d])
  have eta: "\<lparr>year = int (nat (year c)), month = month c, day = day c\<rparr> = c"
    using assms(2) by simp
  show ?thesis
    unfolding new_Date_def r
    by (simp only: option.case prod.case eta Let_def assms(1) if_True)
qed

lemma week_startDate_given:
  assumes "map_of (query req) ''start'' = Some (QStr (iso_date c))"
      and "valid_date c" and "0 \<le> year c" and "year c \<le> 9999"
  shows "week_startDate h now req = Date \<lparr>day_of = c, time_of = 0\<rparr>"
proof -
  have "iso_date c \<noteq> []" by (simp add: iso_date_def)
  then show ?thesis
    using assms by (simp add: week_startDate_def new_Date_iso_date)
qed







end
